theory Spec2Isabelle
  imports Main "HOL-Library.Word" "HOL-Library.Sublist"
begin

unbundle bit_operations_syntax

section \<open>Bytes and the ring buffer\<close>

type_synonym byte = "8 word"

text \<open>
  Modelled from the spec: the ring buffer (\<^verbatim>\<open>ringbuffer.h\<close>, \<^verbatim>\<open>ringbuffer.c\<close>), which
  \<^verbatim>\<open>socket.c\<close> includes and calls but which is not among the sources. The spec
  describes it as a ``fixed-capacity circular byte store supporting append (bounded by
  remaining capacity), zero-copy-style peek of N bytes without removal, and
  discard/consume of N bytes from the front'', with the interface
  \<^verbatim>\<open>append(bytes) -> count written | failure-if-full\<close>,
  \<^verbatim>\<open>peek(max_len) -> bytes without removing\<close>, \<^verbatim>\<open>discard(count)\<close>,
  \<^verbatim>\<open>length() -> bytes buffered\<close>. The model is the queue of the bytes buffered, oldest
  first, and the capacity.
\<close>

record dime_ringbuffer =
  rb_data :: "byte list"
  rb_cap :: nat

text \<open>Modelled from the spec: \<^verbatim>\<open>dime_ringbuffer_len\<close>, ``\<^verbatim>\<open>length() -> bytes buffered\<close>''.\<close>

definition dime_ringbuffer_len :: "dime_ringbuffer \<Rightarrow> nat" where
  "dime_ringbuffer_len rb = length (rb_data rb)"

text \<open>
  Modelled from the spec: \<^verbatim>\<open>dime_ringbuffer_write\<close>,
  ``\<^verbatim>\<open>append(bytes) -> count written | failure-if-full\<close>''. An append that fits in the
  remaining capacity stores all its bytes and returns their count; one that does not
  fit stores nothing and returns the failure value \<open>-1\<close>. The result is a signed value
  (\<^verbatim>\<open>dime_socket_recvpartial\<close> tests it with \<^verbatim>\<open>< 0\<close>), given here as an integer; where
  \<^verbatim>\<open>socket.c\<close> compares it with a \<^verbatim>\<open>size_t\<close>, the model converts it as C does.
\<close>

definition dime_ringbuffer_write :: "dime_ringbuffer \<Rightarrow> byte list \<Rightarrow> int \<times> dime_ringbuffer" where
  "dime_ringbuffer_write rb bs =
     (if length (rb_data rb) + length bs \<le> rb_cap rb
      then (int (length bs), rb\<lparr>rb_data := rb_data rb @ bs\<rparr>)
      else (-1, rb))"

text \<open>
  Modelled from the spec: \<^verbatim>\<open>dime_ringbuffer_peek\<close>,
  ``\<^verbatim>\<open>peek(max_len) -> bytes without removing\<close>''. The call
  \<^verbatim>\<open>dime_ringbuffer_peek(rb, buf, n)\<close> copies the first \<open>n\<close> bytes, or all of them when
  fewer are buffered, into \<open>buf\<close> and returns how many it copied: the model returns the
  bytes copied, and their count is the length of that list.
\<close>

definition dime_ringbuffer_peek :: "dime_ringbuffer \<Rightarrow> nat \<Rightarrow> byte list" where
  "dime_ringbuffer_peek rb n = take n (rb_data rb)"

text \<open>Modelled from the spec: \<^verbatim>\<open>dime_ringbuffer_discard\<close>, ``discard/consume of N bytes
  from the front''.\<close>

definition dime_ringbuffer_discard :: "dime_ringbuffer \<Rightarrow> nat \<Rightarrow> dime_ringbuffer" where
  "dime_ringbuffer_discard rb n = rb\<lparr>rb_data := drop n (rb_data rb)\<rparr>"

section \<open>The socket and its environment\<close>

text \<open>\<^verbatim>\<open>dime_socket_t\<close>: the descriptor, the inbuffer, the outbuffer and the TLS session
  (\<open>None\<close> is the \<^verbatim>\<open>NULL\<close> of \<^verbatim>\<open>sock->tls\<close>; a session is identified by a number).\<close>

record dime_socket =
  fd :: int
  rbuf :: dime_ringbuffer
  wbuf :: dime_ringbuffer
  tls :: "nat option"

text \<open>
  What the platform answers during one call of a socket function. The answers are
  parameters of the model: \<open>malloc n\<close> tells whether an allocation of \<open>n\<close> bytes
  succeeds; \<open>os_send fd bs\<close> and \<open>ssl_write s bs\<close> are the results of
  \<^verbatim>\<open>send(fd, buf, n, 0)\<close> and \<^verbatim>\<open>SSL_write(s, buf, n)\<close> on the \<open>n\<close> bytes \<open>bs\<close> (the count
  accepted, or a negative value); \<open>os_recv fd n\<close> and \<open>ssl_read s n\<close> are the bytes
  that \<^verbatim>\<open>recv\<close> and \<^verbatim>\<open>SSL_read\<close> store in a buffer of \<open>n\<close> bytes (their count is the
  call's result), or \<open>None\<close> for a negative result.
\<close>

record platform =
  malloc :: "nat \<Rightarrow> bool"
  os_send :: "int \<Rightarrow> byte list \<Rightarrow> int"
  ssl_write :: "nat \<Rightarrow> byte list \<Rightarrow> int"
  os_recv :: "int \<Rightarrow> nat \<Rightarrow> byte list option"
  ssl_read :: "nat \<Rightarrow> nat \<Rightarrow> byte list option"

definition SENDBUFLEN :: nat where
  "SENDBUFLEN = 200000000"

definition RECVBUFLEN :: nat where
  "RECVBUFLEN = 200000000"

section \<open>The frame header\<close>

text \<open>\<^verbatim>\<open>struct dime_header\<close> is 12 bytes: the magic, then two \<^verbatim>\<open>uint32_t\<close> lengths that
  \<^verbatim>\<open>htonl\<close> stores most significant byte first.\<close>

definition magic :: "byte list" where
  "magic = [0x44, 0x69, 0x4D, 0x45]"

definition htonl :: "32 word \<Rightarrow> byte list" where
  "htonl w = [ucast (drop_bit 24 w), ucast (drop_bit 16 w), ucast (drop_bit 8 w), ucast w]"

text \<open>\<^verbatim>\<open>ntohl\<close> of the field made of four bytes of the buffer, in the buffer's order.\<close>

fun ntohl :: "byte list \<Rightarrow> 32 word" where
  "ntohl [b0, b1, b2, b3] =
     push_bit 24 (ucast b0) OR push_bit 16 (ucast b1) OR push_bit 8 (ucast b2) OR ucast b3"
| "ntohl bs = 0"

text \<open>\<^verbatim>\<open>strlen\<close>: the bytes of a C string end before its first zero byte.\<close>

definition strlen :: "byte list \<Rightarrow> nat" where
  "strlen s = length (takeWhile (\<lambda>b. b \<noteq> 0) s)"

text \<open>A \<^verbatim>\<open>size_t\<close> value returned as \<^verbatim>\<open>ssize_t\<close> (both 64 bits wide).\<close>

definition ssize_t_of :: "nat \<Rightarrow> int" where
  "ssize_t_of n = (let m = n mod 2 ^ 64 in if m < 2 ^ 63 then int m else int m - 2 ^ 64)"

section \<open>Enqueueing a message\<close>

text \<open>A signed 64-bit value converted to \<^verbatim>\<open>size_t\<close>, as C does before it compares an
  \<^verbatim>\<open>ssize_t\<close> with a \<^verbatim>\<open>size_t\<close>: \<open>-1\<close> becomes \<open>2^64 - 1\<close>.\<close>

definition size_t_of :: "int \<Rightarrow> nat" where
  "size_t_of i = nat (i mod 2 ^ 64)"

text \<open>
  \<^verbatim>\<open>dime_socket_push_str\<close>. The pair \<^verbatim>\<open>bindata\<close>, \<^verbatim>\<open>bindata_len\<close> is the list of the
  \<^verbatim>\<open>bindata_len\<close> bytes at \<^verbatim>\<open>bindata\<close>. The three writes run in order, as the operands of
  \<^verbatim>\<open>||\<close> do, and the first whose test holds ends the call with \<open>-1\<close>; what the earlier
  writes stored stays in the outbuffer. The first test compares the result of the write
  with the \<^verbatim>\<open>int\<close> 12, as signed values. The second and third compare it with
  \<^verbatim>\<open>jsondata_len\<close> and \<^verbatim>\<open>bindata_len\<close>, which are \<^verbatim>\<open>size_t\<close>: the result is converted to
  \<^verbatim>\<open>size_t\<close> first, so that a refused write, of result \<open>-1\<close>, does not make the test hold.
\<close>

definition dime_socket_push_str :: "dime_socket \<Rightarrow> byte list \<Rightarrow> byte list \<Rightarrow> int \<times> dime_socket" where
  "dime_socket_push_str sock jsonstr bindata =
     (let jsondata_len = strlen jsonstr;
          bindata_len = length bindata;
          hdr = magic @ htonl (of_nat jsondata_len) @ htonl (of_nat bindata_len);
          (r1, w1) = dime_ringbuffer_write (wbuf sock) hdr
      in if r1 < 12 then (-1, sock\<lparr>wbuf := w1\<rparr>)
         else let (r2, w2) = dime_ringbuffer_write w1 (take jsondata_len jsonstr)
              in if size_t_of r2 < jsondata_len then (-1, sock\<lparr>wbuf := w2\<rparr>)
                 else let (r3, w3) = dime_ringbuffer_write w2 bindata
                      in if size_t_of r3 < bindata_len then (-1, sock\<lparr>wbuf := w3\<rparr>)
                         else (ssize_t_of (12 + jsondata_len + bindata_len), sock\<lparr>wbuf := w3\<rparr>))"

text \<open>\<^verbatim>\<open>dime_socket_push\<close>: \<open>json_dumps\<close> is the structured-data library's renderer
  (\<^verbatim>\<open>json_dumps(jsondata, JSON_COMPACT)\<close>), \<open>None\<close> for its \<^verbatim>\<open>NULL\<close>.\<close>

definition dime_socket_push ::
  "('j \<Rightarrow> byte list option) \<Rightarrow> dime_socket \<Rightarrow> 'j \<Rightarrow> byte list \<Rightarrow> int \<times> dime_socket" where
  "dime_socket_push json_dumps sock jsondata bindata =
     (case json_dumps jsondata of
        None \<Rightarrow> (-1, sock)
      | Some jsonstr \<Rightarrow> dime_socket_push_str sock jsonstr bindata)"

text \<open>The bytes of a whole frame: what the three writes of \<^verbatim>\<open>dime_socket_push_str\<close>
  append to the outbuffer when none of them is refused.\<close>

definition pushed_bytes :: "byte list \<Rightarrow> byte list \<Rightarrow> byte list" where
  "pushed_bytes jsonstr bindata =
     magic @ htonl (of_nat (strlen jsonstr)) @ htonl (of_nat (length bindata))
       @ take (strlen jsonstr) jsonstr @ bindata"

section \<open>Decoding a message\<close>

text \<open>
  The results of \<^verbatim>\<open>dime_socket_pop\<close>: \<open>Pop_fail\<close> is the return value \<open>-1\<close>,
  \<open>Pop_incomplete\<close> is \<open>0\<close>, and \<open>Pop_message n j b\<close> is the return value \<open>n\<close> with the
  decoded value and blob stored through the out parameters. \<open>Pop_out_of_bounds\<close> is a
  read beyond the \<^verbatim>\<open>msgsiz\<close> bytes of \<^verbatim>\<open>buf\<close>, for which C defines no result.
\<close>

datatype 'j pop_result =
  Pop_fail
  | Pop_incomplete
  | Pop_message nat 'j "byte list"
  | Pop_out_of_bounds

text \<open>
  \<^verbatim>\<open>dime_socket_pop\<close>. \<open>json_loadb\<close> is the structured-data library's parser, \<open>None\<close>
  for its \<^verbatim>\<open>NULL\<close>. The sum \<^verbatim>\<open>12 + hdr.jsondata_len + hdr.bindata_len\<close> is computed in
  \<^verbatim>\<open>unsigned int\<close>, 32 bits wide, before it is stored in \<^verbatim>\<open>msgsiz\<close>: it wraps around.
  \<^verbatim>\<open>json_loadb\<close> then reads \<^verbatim>\<open>jsondata_len\<close> bytes at offset 12 of \<^verbatim>\<open>buf\<close> and
  \<^verbatim>\<open>memcpy\<close> reads \<^verbatim>\<open>bindata_len\<close> bytes after them.
\<close>

definition dime_socket_pop ::
  "platform \<Rightarrow> (byte list \<Rightarrow> 'j option) \<Rightarrow> dime_socket \<Rightarrow> 'j pop_result \<times> dime_socket" where
  "dime_socket_pop env json_loadb sock =
     (let hdr = dime_ringbuffer_peek (rbuf sock) 12
      in if length hdr = 12 then
           if take 4 hdr \<noteq> magic then (Pop_fail, sock)
           else
             let jsondata_len = ntohl (take 4 (drop 4 hdr));
                 bindata_len = ntohl (take 4 (drop 8 hdr));
                 msgsiz = unat (12 + jsondata_len + bindata_len)
             in if \<not> malloc env msgsiz then (Pop_fail, sock)
                else
                  let buf = dime_ringbuffer_peek (rbuf sock) msgsiz
                  in if length buf = msgsiz then
                       if msgsiz < 12 + unat jsondata_len then (Pop_out_of_bounds, sock)
                       else
                         (case json_loadb (take (unat jsondata_len) (drop 12 buf)) of
                            None \<Rightarrow> (Pop_fail, sock)
                          | Some jsondata_p \<Rightarrow>
                              if \<not> malloc env (unat bindata_len) then (Pop_fail, sock)
                              else if msgsiz < 12 + unat jsondata_len + unat bindata_len
                              then (Pop_out_of_bounds, sock)
                              else (Pop_message msgsiz jsondata_p
                                      (take (unat bindata_len) (drop (12 + unat jsondata_len) buf)),
                                    sock\<lparr>rbuf := dime_ringbuffer_discard (rbuf sock) msgsiz\<rparr>))
                     else (Pop_incomplete, sock)
         else (Pop_incomplete, sock))"

text \<open>The value \<^verbatim>\<open>dime_socket_pop\<close> returns, where C defines one.\<close>

fun pop_return :: "'j pop_result \<Rightarrow> int option" where
  "pop_return Pop_fail = Some (-1)"
| "pop_return Pop_incomplete = Some 0"
| "pop_return (Pop_message n j b) = Some (int n)"
| "pop_return Pop_out_of_bounds = None"

section \<open>Partial send and receive\<close>

text \<open>\<^verbatim>\<open>dime_socket_sendpartial\<close>: the window of at most \<^verbatim>\<open>SENDBUFLEN\<close> bytes is peeked,
  handed to \<^verbatim>\<open>SSL_write\<close> when a session is attached and to \<^verbatim>\<open>send\<close> otherwise, and
  \<^verbatim>\<open>nsent\<close> bytes are discarded unless \<^verbatim>\<open>nsent\<close> is negative.\<close>

definition dime_socket_sendpartial :: "platform \<Rightarrow> dime_socket \<Rightarrow> int \<times> dime_socket" where
  "dime_socket_sendpartial env sock =
     (if \<not> malloc env SENDBUFLEN then (-1, sock)
      else
        let buf = dime_ringbuffer_peek (wbuf sock) SENDBUFLEN;
            nsent = (case tls sock of
                       Some s \<Rightarrow> ssl_write env s buf
                     | None \<Rightarrow> os_send env (fd sock) buf)
        in if nsent < 0 then (-1, sock)
           else (nsent, sock\<lparr>wbuf := dime_ringbuffer_discard (wbuf sock) (nat nsent)\<rparr>))"

text \<open>\<^verbatim>\<open>dime_socket_recvpartial\<close>: the bytes read are written to the inbuffer, and a
  negative result of that write ends the call with \<open>-1\<close>.\<close>

definition dime_socket_recvpartial :: "platform \<Rightarrow> dime_socket \<Rightarrow> int \<times> dime_socket" where
  "dime_socket_recvpartial env sock =
     (if \<not> malloc env RECVBUFLEN then (-1, sock)
      else
        (case (case tls sock of
                 Some s \<Rightarrow> ssl_read env s RECVBUFLEN
               | None \<Rightarrow> os_recv env (fd sock) RECVBUFLEN) of
           None \<Rightarrow> (-1, sock)
         | Some received \<Rightarrow>
             let (r, rb) = dime_ringbuffer_write (rbuf sock) received
             in if r < 0 then (-1, sock\<lparr>rbuf := rb\<rparr>)
                else (int (length received), sock\<lparr>rbuf := rb\<rparr>)))"



text \<open>What one call hands to the transport, and the transport's answer to it.\<close>

definition send_window :: "dime_socket \<Rightarrow> byte list" where
  "send_window sock = dime_ringbuffer_peek (wbuf sock) SENDBUFLEN"

definition send_answer :: "platform \<Rightarrow> dime_socket \<Rightarrow> int" where
  "send_answer env sock =
     (case tls sock of
        Some s \<Rightarrow> ssl_write env s (send_window sock)
      | None \<Rightarrow> os_send env (fd sock) (send_window sock))"

definition recv_answer :: "platform \<Rightarrow> dime_socket \<Rightarrow> byte list option" where
  "recv_answer env sock =
     (case tls sock of
        Some s \<Rightarrow> ssl_read env s RECVBUFLEN
      | None \<Rightarrow> os_recv env (fd sock) RECVBUFLEN)"


section \<open>The upgrade to TLS\<close>

text \<open>
  The descriptor as \<^verbatim>\<open>dime_socket_init_tls\<close> sees it: its file status flags
  (\<^verbatim>\<open>F_GETFL\<close>, \<^verbatim>\<open>F_SETFL\<close>) and the calls made to the TLS library on it, in order.
  \<^verbatim>\<open>O_NONBLOCK\<close> has its Linux value (octal 4000).
\<close>

datatype tls_call = SSL_new | SSL_set_mode | SSL_set_fd | SSL_accept | SSL_free

record descriptor =
  fl :: int
  calls :: "tls_call list"

definition O_NONBLOCK :: int where
  "O_NONBLOCK = 2048"

text \<open>
  What the platform answers during one call of \<^verbatim>\<open>dime_socket_init_tls\<close>: whether
  \<^verbatim>\<open>F_GETFL\<close> succeeds, whether the \<^verbatim>\<open>F_SETFL\<close> that clears \<^verbatim>\<open>O_NONBLOCK\<close> and the one that
  restores the flags succeed (a call makes at most one of each), the answers to the
  successive \<^verbatim>\<open>dime_socket_sendpartial\<close> calls of the loop, and the results of
  \<^verbatim>\<open>SSL_new\<close>, \<^verbatim>\<open>SSL_set_fd\<close> and \<^verbatim>\<open>SSL_accept\<close>.
\<close>

record tls_answers =
  getfl_ok :: bool
  clear_ok :: bool
  restore_ok :: bool
  drain :: "platform list"
  ssl_new :: "nat option"
  ssl_set_fd :: int
  ssl_accept :: int

text \<open>A call returns a value or stops the process at the failed \<^verbatim>\<open>assert\<close> (assertions
  are compiled in: \<^verbatim>\<open>NDEBUG\<close> is not defined in the source).\<close>

datatype tls_result = Returned int | Assert_failed

text \<open>The loop \<^verbatim>\<open>while (dime_ringbuffer_len(&sock->wbuf) > 0)\<close>: \<open>Some (True, _)\<close> when the
  outbuffer is empty, \<open>Some (False, _)\<close> when a send failed, and \<open>None\<close> when the loop
  is still running after the last answer given.\<close>

fun drain_wbuf :: "platform list \<Rightarrow> dime_socket \<Rightarrow> (bool \<times> dime_socket) option" where
  "drain_wbuf [] sock =
     (if 0 < dime_ringbuffer_len (wbuf sock) then None else Some (True, sock))"
| "drain_wbuf (env # envs) sock =
     (if 0 < dime_ringbuffer_len (wbuf sock) then
        (let (r, sock1) = dime_socket_sendpartial env sock
         in if r < 0 then Some (False, sock1) else drain_wbuf envs sock1)
      else Some (True, sock))"

definition fcntl_setfl :: "bool \<Rightarrow> descriptor \<Rightarrow> int \<Rightarrow> int \<times> descriptor" where
  "fcntl_setfl ok d v = (if ok then (0, d\<lparr>fl := v\<rparr>) else (-1, d))"

definition tls_called :: "tls_call list \<Rightarrow> descriptor \<Rightarrow> descriptor" where
  "tls_called cs d = d\<lparr>calls := calls d @ cs\<rparr>"

definition dime_socket_init_tls ::
  "tls_answers \<Rightarrow> descriptor \<Rightarrow> dime_socket \<Rightarrow> (tls_result \<times> descriptor \<times> dime_socket) option" where
  "dime_socket_init_tls a d sock =
     (let flags = (if getfl_ok a then fl d else -1)
      in if flags < 0 then Some (Returned (-1), d, sock)
         else
           let nonblock = ((flags AND NOT O_NONBLOCK) \<noteq> flags);
               (c, d1) = (if nonblock then fcntl_setfl (clear_ok a) d (flags AND NOT O_NONBLOCK)
                          else (0, d))
           in if c < 0 then Some (Returned (-1), d1, sock)
              else if dime_ringbuffer_len (rbuf sock) \<noteq> 0 then Some (Assert_failed, d1, sock)
              else
                (case drain_wbuf (drain a) sock of
                   None \<Rightarrow> None
                 | Some (False, sock1) \<Rightarrow>
                     Some (Returned (-1),
                           (if nonblock then snd (fcntl_setfl (restore_ok a) d1 flags) else d1),
                           sock1)
                 | Some (True, sock1) \<Rightarrow>
                     (case ssl_new a of
                        None \<Rightarrow> Some (Returned (-1), tls_called [SSL_new] d1, sock1\<lparr>tls := None\<rparr>)
                      | Some s \<Rightarrow>
                          if ssl_set_fd a \<le> 0 then
                            (let d2 = tls_called [SSL_new, SSL_set_mode, SSL_set_fd, SSL_free] d1
                             in Some (Returned (-1),
                                      (if nonblock then snd (fcntl_setfl (restore_ok a) d2 flags) else d2),
                                      sock1\<lparr>tls := None\<rparr>))
                          else if ssl_accept a \<le> 0 then
                            (let d2 = tls_called
                                        [SSL_new, SSL_set_mode, SSL_set_fd, SSL_accept, SSL_free] d1
                             in Some (Returned (-1),
                                      (if nonblock then snd (fcntl_setfl (restore_ok a) d2 flags) else d2),
                                      sock1\<lparr>tls := None\<rparr>))
                          else
                            (let d2 = tls_called [SSL_new, SSL_set_mode, SSL_set_fd, SSL_accept] d1;
                                 (c2, d3) = (if nonblock then fcntl_setfl (restore_ok a) d2 flags
                                             else (0, d2))
                             in if c2 < 0 then Some (Returned (-1), d3, sock1\<lparr>tls := Some s\<rparr>)
                                else Some (Returned 0, d3, sock1\<lparr>tls := Some s\<rparr>)))))"

section \<open>Concrete inputs\<close>

text \<open>
  The structured-data library (jansson) is outside the repository, and the model takes
  its renderer and parser as parameters. To run the model on concrete inputs, here is an
  instance of the two on the values whose compact rendering JSON itself fixes: the empty
  object \<^verbatim>\<open>{}\<close> and the empty array \<^verbatim>\<open>[]\<close>. Every other text, the empty text
  included, is refused.
\<close>

datatype json_value = Empty_object | Empty_array

fun example_dumps :: "json_value \<Rightarrow> byte list option" where
  "example_dumps Empty_object = Some [0x7B, 0x7D]"
| "example_dumps Empty_array = Some [0x5B, 0x5D]"

definition example_loadb :: "byte list \<Rightarrow> json_value option" where
  "example_loadb bs =
     (if bs = [0x7B, 0x7D] then Some Empty_object
      else if bs = [0x5B, 0x5D] then Some Empty_array
      else None)"

text \<open>A platform on which every allocation succeeds, every send gets the answer
  \<open>snd_answer\<close> and every receive the answer \<open>rcv_answer\<close>; and one with no memory left.\<close>

definition example_platform :: "(byte list \<Rightarrow> int) \<Rightarrow> byte list option \<Rightarrow> platform" where
  "example_platform snd_answer rcv_answer =
     \<lparr>malloc = (\<lambda>n. True),
      os_send = (\<lambda>h. snd_answer), ssl_write = (\<lambda>h. snd_answer),
      os_recv = (\<lambda>h n. rcv_answer), ssl_read = (\<lambda>h n. rcv_answer)\<rparr>"

definition no_memory :: platform where
  "no_memory =
     \<lparr>malloc = (\<lambda>n. False),
      os_send = (\<lambda>h bs. int (length bs)), ssl_write = (\<lambda>h bs. int (length bs)),
      os_recv = (\<lambda>h n. Some []), ssl_read = (\<lambda>h n. Some [])\<rparr>"



text \<open>A plaintext socket on descriptor 3 with the given buffer contents, each buffer of
  capacity \<open>cap\<close>.\<close>

definition example_socket :: "nat \<Rightarrow> byte list \<Rightarrow> byte list \<Rightarrow> dime_socket" where
  "example_socket cap inb outb =
     \<lparr>fd = 3, rbuf = \<lparr>rb_data = inb, rb_cap = cap\<rparr>,
      wbuf = \<lparr>rb_data = outb, rb_cap = cap\<rparr>, tls = None\<rparr>"

text \<open>Answers of a platform on which every call of \<^verbatim>\<open>dime_socket_init_tls\<close> succeeds,
  and a descriptor open for reading and writing in non-blocking mode
  (\<^verbatim>\<open>O_RDWR | O_NONBLOCK\<close>) or in blocking mode (\<^verbatim>\<open>O_RDWR\<close>).\<close>

definition all_succeed :: tls_answers where
  "all_succeed =
     \<lparr>getfl_ok = True, clear_ok = True, restore_ok = True, drain = [],
      ssl_new = Some 1, ssl_set_fd = 1, ssl_accept = 1\<rparr>"

definition nonblocking_descriptor :: descriptor where
  "nonblocking_descriptor = \<lparr>fl = 2050, calls = []\<rparr>"


text \<open>The frame of the value \<^verbatim>\<open>{}\<close> with the blob \<^verbatim>\<open>AB\<close>.\<close>

definition frame_AB :: "byte list" where
  "frame_AB = [0x44, 0x69, 0x4D, 0x45, 0, 0, 0, 2, 0, 0, 0, 2, 0x7B, 0x7D, 0x41, 0x42]"

section \<open>Facts about the header and the enqueued bytes\<close>

lemma ntohl_htonl: "ntohl (htonl w) = w"
proof (rule bit_word_eqI)
  fix n assume "n < LENGTH(32)"
  then consider "n < 8" | "8 \<le> n" "n < 16" | "16 \<le> n" "n < 24" | "24 \<le> n" "n < 32"
    by force
  then show "bit (ntohl (htonl w)) n = bit w n"
    by cases (auto simp: htonl_def bit_simps)
qed

lemma length_htonl: "length (htonl w) = 4"
  by (simp add: htonl_def)

lemma length_magic: "length magic = 4"
  by (simp add: magic_def)

lemma unat_msgsiz:
  "12 + a + b < 2 ^ 32 \<Longrightarrow> unat (12 + of_nat a + of_nat b :: 32 word) = 12 + a + b"
  by (simp add: unat_word_ariths unat_of_nat)

lemma strlen_le: "strlen s \<le> length s"
  by (simp add: strlen_def length_takeWhile_le)

lemma length_pushed_bytes:
  "length (pushed_bytes jsonstr bindata) = 12 + strlen jsonstr + length bindata"
  using strlen_le [of jsonstr]
  by (simp add: pushed_bytes_def length_htonl length_magic)

lemma strlen_no_nul: "0 \<notin> set s \<Longrightarrow> strlen s = length s"
proof -
  assume "0 \<notin> set s"
  then have "takeWhile (\<lambda>b. b \<noteq> 0) s = s"
    by (intro takeWhile_eq_all_conv [THEN iffD2]) auto
  then show ?thesis unfolding strlen_def by (rule arg_cong)
qed

lemma ssize_t_of_small: "n < 2 ^ 63 \<Longrightarrow> ssize_t_of n = int n"
  by (simp add: ssize_t_of_def Let_def)

lemma size_t_of_int: "n < 2 ^ 64 \<Longrightarrow> size_t_of (int n) = n"
  by (simp add: size_t_of_def nat_mod_distrib)

lemma size_t_of_minus_one: "size_t_of (-1) = 2 ^ 64 - 1"
  by (simp add: size_t_of_def)

text \<open>A refused write is detected by the header's test only: the call returns \<open>-1\<close> when
  the header does not fit, and otherwise returns the length of the whole frame and
  appends the header, then the text if it fits, then the blob if it fits.\<close>

lemma push_str_result:
  assumes js: "strlen jsonstr < 2 ^ 64" and bl: "length bindata < 2 ^ 64"
  shows "dime_socket_push_str sock jsonstr bindata =
     (if rb_cap (wbuf sock) < length (rb_data (wbuf sock)) + 12 then (-1, sock)
      else
        let hdr = magic @ htonl (of_nat (strlen jsonstr)) @ htonl (of_nat (length bindata));
            txt = (if length (rb_data (wbuf sock)) + 12 + strlen jsonstr \<le> rb_cap (wbuf sock)
                   then take (strlen jsonstr) jsonstr else []);
            blob = (if length (rb_data (wbuf sock)) + 12 + length txt + length bindata
                        \<le> rb_cap (wbuf sock)
                    then bindata else [])
        in (ssize_t_of (12 + strlen jsonstr + length bindata),
            sock\<lparr>wbuf := (wbuf sock)\<lparr>rb_data := rb_data (wbuf sock) @ hdr @ txt @ blob\<rparr>\<rparr>))"
proof -
  have a: "\<not> size_t_of (int (strlen jsonstr)) < strlen jsonstr"
    using js by (simp add: size_t_of_int)
  have b: "\<not> size_t_of (int (length bindata)) < length bindata"
    using bl by (simp add: size_t_of_int)
  have c: "\<not> size_t_of (-1) < strlen jsonstr" "\<not> size_t_of (-1) < length bindata"
    using js bl by (simp_all add: size_t_of_minus_one)
  have d: "min (length jsonstr) (strlen jsonstr) = strlen jsonstr"
    using strlen_le [of jsonstr] by simp
  show ?thesis
    using a b c
    by (simp add: dime_socket_push_str_def dime_ringbuffer_write_def Let_def
        length_htonl length_magic d)
qed

lemma push_str_fits:
  assumes "length (rb_data (wbuf sock)) + length (pushed_bytes jsonstr bindata) \<le> rb_cap (wbuf sock)"
    and "length (pushed_bytes jsonstr bindata) < 2 ^ 64"
  shows "dime_socket_push_str sock jsonstr bindata =
     (ssize_t_of (12 + strlen jsonstr + length bindata),
      sock\<lparr>wbuf := (wbuf sock)\<lparr>rb_data := rb_data (wbuf sock) @ pushed_bytes jsonstr bindata\<rparr>\<rparr>)"
proof -
  have n: "length (pushed_bytes jsonstr bindata) = 12 + strlen jsonstr + length bindata"
    by (rule length_pushed_bytes)
  have js: "strlen jsonstr < 2 ^ 64" and bl: "length bindata < 2 ^ 64"
    using assms(2) n by simp_all
  have d: "min (length jsonstr) (strlen jsonstr) = strlen jsonstr"
    using strlen_le [of jsonstr] by simp
  show ?thesis
    unfolding push_str_result [OF js bl]
    using assms(1) n by (simp add: Let_def pushed_bytes_def d)
qed

text \<open>Whatever a call of \<^verbatim>\<open>dime_socket_push_str\<close> appends is empty or starts with the
  header and is no longer than the whole frame.\<close>

lemma push_str_appended:
  assumes js: "strlen jsonstr < 2 ^ 64" and bl: "length bindata < 2 ^ 64"
  shows "\<exists>A. rb_data (wbuf (snd (dime_socket_push_str sock jsonstr bindata)))
               = rb_data (wbuf sock) @ A
           \<and> (A = [] \<or>
               (take 12 A = magic @ htonl (of_nat (strlen jsonstr)) @ htonl (of_nat (length bindata))
                \<and> 12 \<le> length A \<and> length A \<le> 12 + strlen jsonstr + length bindata))"
proof -
  have d: "min (length jsonstr) (strlen jsonstr) = strlen jsonstr"
    using strlen_le [of jsonstr] by simp
  show ?thesis
    unfolding push_str_result [OF js bl]
    by (simp add: Let_def length_htonl length_magic d)
qed

text \<open>What \<^verbatim>\<open>dime_socket_pop\<close> does once the inbuffer starts with a well-formed header.\<close>

lemma pop_after_header:
  assumes len: "12 \<le> length (rb_data (rbuf sock))"
    and hdr: "take 12 (rb_data (rbuf sock)) = magic @ htonl a @ htonl b"
  shows "dime_socket_pop env json_loadb sock =
     (let msgsiz = unat (12 + a + b)
      in if \<not> malloc env msgsiz then (Pop_fail, sock)
         else if length (rb_data (rbuf sock)) < msgsiz then (Pop_incomplete, sock)
         else if msgsiz < 12 + unat a then (Pop_out_of_bounds, sock)
         else
           (case json_loadb (take (unat a) (drop 12 (take msgsiz (rb_data (rbuf sock))))) of
              None \<Rightarrow> (Pop_fail, sock)
            | Some j \<Rightarrow>
                if \<not> malloc env (unat b) then (Pop_fail, sock)
                else if msgsiz < 12 + unat a + unat b then (Pop_out_of_bounds, sock)
                else (Pop_message msgsiz j
                        (take (unat b) (drop (12 + unat a) (take msgsiz (rb_data (rbuf sock))))),
                      sock\<lparr>rbuf := dime_ringbuffer_discard (rbuf sock) msgsiz\<rparr>)))"
proof -
  have p12: "dime_ringbuffer_peek (rbuf sock) 12 = magic @ htonl a @ htonl b"
    using hdr by (simp add: dime_ringbuffer_peek_def)
  have l12: "length (magic @ htonl a @ htonl b) = 12"
    by (simp add: length_magic length_htonl)
  have m: "take 4 (magic @ htonl a @ htonl b) = magic"
    by (simp add: length_magic)
  have ja: "ntohl (take 4 (drop 4 (magic @ htonl a @ htonl b))) = a"
    by (simp add: length_magic length_htonl ntohl_htonl)
  have jb: "ntohl (take 4 (drop 8 (magic @ htonl a @ htonl b))) = b"
    by (simp add: length_magic length_htonl ntohl_htonl)
  have pk: "\<And>n. length (dime_ringbuffer_peek (rbuf sock) n) = n
              \<longleftrightarrow> \<not> length (rb_data (rbuf sock)) < n"
    by (auto simp add: dime_ringbuffer_peek_def)
  show ?thesis
    unfolding dime_socket_pop_def Let_def p12 l12 m ja jb pk
    by (simp add: dime_ringbuffer_peek_def split: option.splits)
qed

lemma take12_pushed_bytes:
  "take 12 (pushed_bytes jsonstr bindata @ rest)
     = magic @ htonl (of_nat (strlen jsonstr)) @ htonl (of_nat (length bindata))"
  by (simp add: pushed_bytes_def length_magic length_htonl)

text \<open>Decoding a buffer that starts with a whole frame.\<close>

lemma pop_whole_frame:
  assumes size: "12 + strlen jsonstr + length bindata < 2 ^ 32"
    and data: "rb_data (rbuf sock) = pushed_bytes jsonstr bindata @ rest"
    and mem: "malloc env (12 + strlen jsonstr + length bindata)" "malloc env (length bindata)"
  shows "dime_socket_pop env json_loadb sock =
     (case json_loadb (take (strlen jsonstr) jsonstr) of
        None \<Rightarrow> (Pop_fail, sock)
      | Some j \<Rightarrow> (Pop_message (12 + strlen jsonstr + length bindata) j bindata,
                   sock\<lparr>rbuf := (rbuf sock)\<lparr>rb_data := rest\<rparr>\<rparr>))"
proof -
  let ?a = "of_nat (strlen jsonstr) :: 32 word"
  let ?b = "of_nat (length bindata) :: 32 word"
  let ?n = "12 + strlen jsonstr + length bindata"
  have ua: "unat ?a = strlen jsonstr" using size by (simp add: unat_of_nat)
  have ub: "unat ?b = length bindata" using size by (simp add: unat_of_nat)
  have un: "unat (12 + ?a + ?b) = ?n" using size by (rule unat_msgsiz)
  have lenF: "length (pushed_bytes jsonstr bindata) = ?n" by (rule length_pushed_bytes)
  have len: "12 \<le> length (rb_data (rbuf sock))" using data lenF by simp
  have hdr: "take 12 (rb_data (rbuf sock)) = magic @ htonl ?a @ htonl ?b"
    unfolding data by (rule take12_pushed_bytes)
  have tk: "take ?n (rb_data (rbuf sock)) = pushed_bytes jsonstr bindata"
    using data lenF by simp
  have js: "take (strlen jsonstr) (drop 12 (pushed_bytes jsonstr bindata)) = take (strlen jsonstr) jsonstr"
    using strlen_le [of jsonstr] by (simp add: pushed_bytes_def length_magic length_htonl)
  have bn: "take (length bindata) (drop (12 + strlen jsonstr) (pushed_bytes jsonstr bindata)) = bindata"
    using strlen_le [of jsonstr] by (simp add: pushed_bytes_def length_magic length_htonl)
  have dr: "dime_ringbuffer_discard (rbuf sock) ?n = (rbuf sock)\<lparr>rb_data := rest\<rparr>"
    using data lenF by (simp add: dime_ringbuffer_discard_def)
  have ge: "\<not> length (rb_data (rbuf sock)) < ?n" using data lenF by simp
  show ?thesis
    unfolding pop_after_header [OF len hdr] Let_def un ua ub tk js bn dr
    using mem ge by (simp split: option.splits)
qed

text \<open>Decoding a buffer that holds a strict prefix of bytes that start with the header
  of a frame and are no longer than the frame.\<close>

lemma pop_frame_prefix:
  assumes size: "12 + strlen jsonstr + length bindata < 2 ^ 32"
    and prefix: "strict_prefix (rb_data (rbuf sock)) A"
    and hdrA: "take 12 A = magic @ htonl (of_nat (strlen jsonstr)) @ htonl (of_nat (length bindata))"
    and lenA: "length A \<le> 12 + strlen jsonstr + length bindata"
  shows "dime_socket_pop env json_loadb sock =
     (if 12 \<le> length (rb_data (rbuf sock)) \<and> \<not> malloc env (12 + strlen jsonstr + length bindata)
      then Pop_fail else Pop_incomplete, sock)"
proof (cases "12 \<le> length (rb_data (rbuf sock))")
  case False
  then show ?thesis
    by (simp add: dime_socket_pop_def dime_ringbuffer_peek_def Let_def)
next
  case True
  let ?a = "of_nat (strlen jsonstr) :: 32 word"
  let ?b = "of_nat (length bindata) :: 32 word"
  let ?n = "12 + strlen jsonstr + length bindata"
  obtain rest where A: "A = rb_data (rbuf sock) @ rest" and ne: "rest \<noteq> []"
    using prefix by (auto simp add: strict_prefix_def prefix_def)
  have un: "unat (12 + ?a + ?b) = ?n" using size by (rule unat_msgsiz)
  have "take 12 (rb_data (rbuf sock)) = take 12 A"
    using True A by simp
  then have hdr: "take 12 (rb_data (rbuf sock)) = magic @ htonl ?a @ htonl ?b"
    using hdrA by simp
  have "length (rb_data (rbuf sock)) + length rest = length A"
    using A by (metis length_append)
  then have lt: "length (rb_data (rbuf sock)) < ?n" using ne lenA by (cases rest) auto
  show ?thesis
    unfolding pop_after_header [OF True hdr] Let_def un
    using True lt by simp
qed





section \<open>The scenario of one message\<close>

text \<open>
  C1, as amended. Let the renderer turn the value into the text \<^verbatim>\<open>{}\<close> and the parser
  turn that text back into the value. Enqueueing the value with the blob \<^verbatim>\<open>AB\<close> on an
  empty outbuffer with room for 16 bytes returns 16 and leaves in the outbuffer the 16
  bytes \<open>frame_AB\<close>: the magic, \<^verbatim>\<open>00000002\<close>, \<^verbatim>\<open>00000002\<close>, \<^verbatim>\<open>{}\<close> and \<^verbatim>\<open>AB\<close>. When the
  transport delivers those bytes to a socket with an empty inbuffer with room for them,
  \<^verbatim>\<open>dime_socket_recvpartial\<close> returns 16, and \<^verbatim>\<open>dime_socket_pop\<close> then returns 16 with the
  value and \<^verbatim>\<open>AB\<close> and leaves the inbuffer empty (the three allocations succeeding).
\<close>

theorem enqueue_receive_pop_scenario:
  assumes dumps: "json_dumps v = Some [0x7B, 0x7D]"
    and loadb: "json_loadb [0x7B, 0x7D] = Some v"
    and out: "rb_data (wbuf s) = []" "16 \<le> rb_cap (wbuf s)"
    and inb: "rb_data (rbuf r) = []" "16 \<le> rb_cap (rbuf r)"
    and recv: "recv_answer env r = Some frame_AB"
    and mem: "malloc env RECVBUFLEN" "malloc env 16" "malloc env 2"
  shows "dime_socket_push json_dumps s v [0x41, 0x42]
           = (16, s\<lparr>wbuf := (wbuf s)\<lparr>rb_data := frame_AB\<rparr>\<rparr>)
     \<and> length frame_AB = 16
     \<and> dime_socket_recvpartial env r = (16, r\<lparr>rbuf := (rbuf r)\<lparr>rb_data := frame_AB\<rparr>\<rparr>)
     \<and> dime_socket_pop env json_loadb (r\<lparr>rbuf := (rbuf r)\<lparr>rb_data := frame_AB\<rparr>\<rparr>)
           = (Pop_message 16 v [0x41, 0x42], r\<lparr>rbuf := (rbuf r)\<lparr>rb_data := []\<rparr>\<rparr>)"
proof -
  have push: "dime_socket_push json_dumps s v [0x41, 0x42]
           = (16, s\<lparr>wbuf := (wbuf s)\<lparr>rb_data := frame_AB\<rparr>\<rparr>)"
    using dumps out
    by (simp add: dime_socket_push_def dime_socket_push_str_def frame_AB_def
        strlen_def dime_ringbuffer_write_def magic_def htonl_def Let_def ssize_t_of_def size_t_of_def)
  have recv': "dime_socket_recvpartial env r = (16, r\<lparr>rbuf := (rbuf r)\<lparr>rb_data := frame_AB\<rparr>\<rparr>)"
    using recv inb mem(1) unfolding recv_answer_def
    by (simp add: dime_socket_recvpartial_def dime_ringbuffer_write_def frame_AB_def)
  have pop: "dime_socket_pop env json_loadb (r\<lparr>rbuf := (rbuf r)\<lparr>rb_data := frame_AB\<rparr>\<rparr>)
           = (Pop_message 16 v [0x41, 0x42], r\<lparr>rbuf := (rbuf r)\<lparr>rb_data := []\<rparr>\<rparr>)"
    using loadb mem(2,3)
    by (simp add: dime_socket_pop_def dime_ringbuffer_peek_def dime_ringbuffer_discard_def
        frame_AB_def magic_def Let_def)
  show ?thesis using push recv' pop by (simp add: frame_AB_def)
qed

theorem enqueue_receive_pop_scenario_witness:
  "example_dumps Empty_object = Some [0x7B, 0x7D]
   \<and> example_loadb [0x7B, 0x7D] = Some Empty_object
   \<and> recv_answer (example_platform (\<lambda>bs. 0) (Some frame_AB)) (example_socket 1024 [] [])
       = Some frame_AB
   \<and> dime_socket_push example_dumps (example_socket 1024 [] []) Empty_object [0x41, 0x42]
       = (16, example_socket 1024 [] frame_AB)
   \<and> dime_socket_recvpartial (example_platform (\<lambda>bs. 0) (Some frame_AB)) (example_socket 1024 [] [])
       = (16, example_socket 1024 frame_AB [])
   \<and> dime_socket_pop (example_platform (\<lambda>bs. 0) (Some frame_AB)) example_loadb
         (example_socket 1024 frame_AB [])
       = (Pop_message 16 Empty_object [0x41, 0x42], example_socket 1024 [] [])"
  using enqueue_receive_pop_scenario [of example_dumps Empty_object example_loadb
      "example_socket 1024 [] []" "example_socket 1024 [] []"
      "example_platform (\<lambda>bs. 0) (Some frame_AB)"]
  by (simp add: example_loadb_def example_socket_def example_platform_def recv_answer_def)

text \<open>The claim as stated gives the byte count 14. The header alone is 12 bytes, and
  with \<^verbatim>\<open>{}\<close> and \<^verbatim>\<open>AB\<close> the frame has 16.\<close>

theorem enqueue_scenario_counterexample:
  "fst (dime_socket_push example_dumps (example_socket 1024 [] []) Empty_object [0x41, 0x42]) = 16
   \<and> fst (dime_socket_push example_dumps (example_socket 1024 [] []) Empty_object [0x41, 0x42]) \<noteq> 14
   \<and> rb_data (wbuf (snd (dime_socket_push example_dumps (example_socket 1024 [] [])
                            Empty_object [0x41, 0x42])))
       = [0x44, 0x69, 0x4D, 0x45, 0, 0, 0, 2, 0, 0, 0, 2, 0x7B, 0x7D, 0x41, 0x42]
   \<and> length (rb_data (wbuf (snd (dime_socket_push example_dumps (example_socket 1024 [] [])
                                    Empty_object [0x41, 0x42])))) \<noteq> 14"
  by (simp add: dime_socket_push_def dime_socket_push_str_def example_socket_def
      strlen_def dime_ringbuffer_write_def magic_def htonl_def Let_def ssize_t_of_def size_t_of_def)

section \<open>Backpressure\<close>

text \<open>
  C2. The claim is that a \<^verbatim>\<open>dime_socket_push_str\<close> whose frame exceeds the room left
  returns failure and leaves the outbuffer as it was. On an outbuffer of capacity 1024
  that holds 1011 bytes, so that 13 bytes of room remain, enqueueing the text \<^verbatim>\<open>{}\<close> with
  the blob \<^verbatim>\<open>AB\<close> (a frame of 16 bytes) returns 16, and the outbuffer then holds the 1011
  bytes followed by the 12 bytes of the frame's header alone. With 15 bytes of room it
  returns 16 and appends the header and the text without the blob. Only when the header
  itself does not fit (11 bytes of room) does the call return \<open>-1\<close>.
\<close>

theorem push_str_refused_leaves_header:
  "dime_socket_push_str (example_socket 1024 [] (replicate 1011 0)) [0x7B, 0x7D] [0x41, 0x42]
     = (16, example_socket 1024 []
              (replicate 1011 0 @ [0x44, 0x69, 0x4D, 0x45, 0, 0, 0, 2, 0, 0, 0, 2]))
   \<and> dime_socket_push_str (example_socket 1024 [] (replicate 1009 0)) [0x7B, 0x7D] [0x41, 0x42]
     = (16, example_socket 1024 []
              (replicate 1009 0 @ [0x44, 0x69, 0x4D, 0x45, 0, 0, 0, 2, 0, 0, 0, 2, 0x7B, 0x7D]))
   \<and> dime_socket_push_str (example_socket 1024 [] (replicate 1013 0)) [0x7B, 0x7D] [0x41, 0x42]
     = (-1, example_socket 1024 [] (replicate 1013 0))"
  by (simp add: dime_socket_push_str_def example_socket_def strlen_def
      dime_ringbuffer_write_def magic_def htonl_def Let_def ssize_t_of_def size_t_of_def)

section \<open>Desync detection\<close>

text \<open>
  C8. Whenever the inbuffer holds at least 12 bytes and its first four are not the
  magic \<open>DiME\<close>, \<^verbatim>\<open>dime_socket_pop\<close> returns \<open>-1\<close> (never \<open>0\<close>, never a decoded message)
  and leaves the socket, and so the inbuffer, as it was.
\<close>

theorem pop_bad_magic_fails:
  assumes "12 \<le> dime_ringbuffer_len (rbuf sock)"
    and "take 4 (rb_data (rbuf sock)) \<noteq> magic"
  shows "dime_socket_pop env json_loadb sock = (Pop_fail, sock)
         \<and> pop_return (fst (dime_socket_pop env json_loadb sock)) = Some (-1)"
proof -
  have len: "length (dime_ringbuffer_peek (rbuf sock) 12) = 12"
    using assms(1) by (simp add: dime_ringbuffer_peek_def dime_ringbuffer_len_def)
  have hd4: "take 4 (dime_ringbuffer_peek (rbuf sock) 12) \<noteq> magic"
    using assms(2) by (simp add: dime_ringbuffer_peek_def)
  have "dime_socket_pop env json_loadb sock = (Pop_fail, sock)"
    using len hd4 by (simp add: dime_socket_pop_def Let_def)
  then show ?thesis by simp
qed

text \<open>The frame of \<^verbatim>\<open>{}\<close> and \<^verbatim>\<open>AB\<close> with its first byte replaced by \<^verbatim>\<open>X\<close>.\<close>

theorem pop_bad_magic_fails_witness:
  "12 \<le> dime_ringbuffer_len (rbuf (example_socket 16 (0x58 # tl frame_AB) []))
   \<and> take 4 (rb_data (rbuf (example_socket 16 (0x58 # tl frame_AB) []))) \<noteq> magic
   \<and> dime_socket_pop no_memory example_loadb (example_socket 16 (0x58 # tl frame_AB) [])
       = (Pop_fail, example_socket 16 (0x58 # tl frame_AB) [])
   \<and> pop_return (fst (dime_socket_pop no_memory example_loadb
        (example_socket 16 (0x58 # tl frame_AB) []))) = Some (-1)"
  using pop_bad_magic_fails [of "example_socket 16 (0x58 # tl frame_AB) []" no_memory example_loadb]
  by (simp add: example_socket_def frame_AB_def magic_def dime_ringbuffer_len_def)

section \<open>Transport errors\<close>

text \<open>
  C9. When the transport answers a \<^verbatim>\<open>dime_socket_sendpartial\<close> call with a negative
  value (an error, would-block included), the call returns \<open>-1\<close> and the socket, and so
  the outbuffer, is what it was before the call.
\<close>

theorem sendpartial_error_keeps_buffer:
  assumes "send_answer env sock < 0"
  shows "dime_socket_sendpartial env sock = (-1, sock)"
  using assms unfolding send_answer_def send_window_def
  by (simp add: dime_socket_sendpartial_def Let_def)

theorem sendpartial_error_keeps_buffer_witness:
  "send_answer (example_platform (\<lambda>bs. -1) None) (example_socket 16 [] frame_AB) < 0
   \<and> dime_socket_sendpartial (example_platform (\<lambda>bs. -1) None) (example_socket 16 [] frame_AB)
       = (-1, example_socket 16 [] frame_AB)"
  using sendpartial_error_keeps_buffer
    [of "example_platform (\<lambda>bs. -1) None" "example_socket 16 [] frame_AB"]
  by (simp add: send_answer_def example_platform_def example_socket_def)

text \<open>
  C10. A \<^verbatim>\<open>dime_socket_recvpartial\<close> call that returns a value \<open>n \<ge> 0\<close> has received \<open>n\<close>
  bytes from the transport and has appended exactly those bytes, in order, to the
  inbuffer, changing nothing else. A call that returns a negative value has appended
  nothing, and a call in which the transport reports an error returns \<open>-1\<close>.
\<close>

theorem recvpartial_appends_received:
  "(0 \<le> fst (dime_socket_recvpartial env sock) \<longrightarrow>
      (\<exists>received. recv_answer env sock = Some received
         \<and> fst (dime_socket_recvpartial env sock) = int (length received)
         \<and> snd (dime_socket_recvpartial env sock)
             = sock\<lparr>rbuf := (rbuf sock)\<lparr>rb_data := rb_data (rbuf sock) @ received\<rparr>\<rparr>))
   \<and> (fst (dime_socket_recvpartial env sock) < 0 \<longrightarrow>
        dime_socket_recvpartial env sock = (-1, sock))
   \<and> (recv_answer env sock = None \<longrightarrow> dime_socket_recvpartial env sock = (-1, sock))"
  by (auto simp add: dime_socket_recvpartial_def recv_answer_def dime_ringbuffer_write_def
      Let_def split: option.splits if_splits)

theorem recvpartial_appends_received_witness:
  "0 \<le> fst (dime_socket_recvpartial (example_platform (\<lambda>bs. 0) (Some [0x41, 0x42]))
             (example_socket 16 [0x7B, 0x7D] []))
   \<and> dime_socket_recvpartial (example_platform (\<lambda>bs. 0) (Some [0x41, 0x42]))
        (example_socket 16 [0x7B, 0x7D] [])
       = (2, example_socket 16 [0x7B, 0x7D, 0x41, 0x42] [])
   \<and> recv_answer (example_platform (\<lambda>bs. 0) None) (example_socket 16 [0x7B, 0x7D] []) = None
   \<and> dime_socket_recvpartial (example_platform (\<lambda>bs. 0) None) (example_socket 16 [0x7B, 0x7D] [])
       = (-1, example_socket 16 [0x7B, 0x7D] [])"
  using recvpartial_appends_received
    [of "example_platform (\<lambda>bs. 0) (Some [0x41, 0x42])" "example_socket 16 [0x7B, 0x7D] []"]
    recvpartial_appends_received
    [of "example_platform (\<lambda>bs. 0) None" "example_socket 16 [0x7B, 0x7D] []"]
  by (simp add: dime_socket_recvpartial_def recv_answer_def example_platform_def
      example_socket_def dime_ringbuffer_write_def RECVBUFLEN_def)

section \<open>Round trip\<close>

text \<open>
  C5, as amended. Let the renderer turn the value \<open>v\<close> into a text without a zero byte
  that the parser turns back into \<open>v\<close>, let the frame be shorter than \<open>2^32\<close> bytes
  (\<open>12 + length jsonstr + length bindata < 2^32\<close>), and let it fit in the room left in the
  outbuffer. Then \<^verbatim>\<open>dime_socket_push\<close> returns \<open>12 + length jsonstr + length bindata\<close> and
  appends that many bytes to the outbuffer; and \<^verbatim>\<open>dime_socket_pop\<close> on an inbuffer that
  starts with those bytes, when its two allocations succeed, returns that same count
  with \<open>v\<close> and the blob, and leaves in the inbuffer exactly what followed the frame. The
  blob may be empty.
\<close>

theorem push_pop_roundtrip:
  assumes dumps: "json_dumps v = Some jsonstr"
    and nonul: "0 \<notin> set jsonstr"
    and loadb: "json_loadb jsonstr = Some v"
    and size: "12 + length jsonstr + length bindata < 2 ^ 32"
    and fits: "length (rb_data (wbuf s)) + 12 + length jsonstr + length bindata \<le> rb_cap (wbuf s)"
    and wire: "rb_data (rbuf sock)
                 = drop (length (rb_data (wbuf s)))
                     (rb_data (wbuf (snd (dime_socket_push json_dumps s v bindata)))) @ rest"
    and mem: "malloc env (12 + length jsonstr + length bindata)" "malloc env (length bindata)"
  shows "fst (dime_socket_push json_dumps s v bindata) = int (12 + length jsonstr + length bindata)
     \<and> length (rb_data (wbuf (snd (dime_socket_push json_dumps s v bindata))))
         = length (rb_data (wbuf s)) + 12 + length jsonstr + length bindata
     \<and> dime_socket_pop env json_loadb sock
         = (Pop_message (12 + length jsonstr + length bindata) v bindata,
            sock\<lparr>rbuf := (rbuf sock)\<lparr>rb_data := rest\<rparr>\<rparr>)"
proof -
  let ?n = "12 + length jsonstr + length bindata"
  have sl: "strlen jsonstr = length jsonstr"
    using nonul by (rule strlen_no_nul)
  have lenF: "length (pushed_bytes jsonstr bindata) = ?n"
    using sl by (simp add: length_pushed_bytes)
  have fits': "length (rb_data (wbuf s)) + length (pushed_bytes jsonstr bindata) \<le> rb_cap (wbuf s)"
    using fits lenF by simp
  have small: "length (pushed_bytes jsonstr bindata) < 2 ^ 64"
    using size lenF by simp
  have ps: "dime_socket_push json_dumps s v bindata = dime_socket_push_str s jsonstr bindata"
    using dumps by (simp add: dime_socket_push_def)
  have r: "fst (dime_socket_push json_dumps s v bindata) = ssize_t_of ?n"
    and s': "rb_data (wbuf (snd (dime_socket_push json_dumps s v bindata)))
               = rb_data (wbuf s) @ pushed_bytes jsonstr bindata"
    unfolding ps push_str_fits [OF fits' small] using sl by simp_all
  have "?n < (2::nat) ^ 63"
    using size by simp
  then have "ssize_t_of ?n = int ?n"
    by (rule ssize_t_of_small)
  with r have r': "fst (dime_socket_push json_dumps s v bindata) = int ?n" by simp
  have data: "rb_data (rbuf sock) = pushed_bytes jsonstr bindata @ rest"
    using wire s' by simp
  have "dime_socket_pop env json_loadb sock
         = (Pop_message ?n v bindata, sock\<lparr>rbuf := (rbuf sock)\<lparr>rb_data := rest\<rparr>\<rparr>)"
    using pop_whole_frame [of jsonstr bindata sock rest env json_loadb] size data mem loadb sl
    by simp
  moreover have "length (rb_data (wbuf (snd (dime_socket_push json_dumps s v bindata))))
                   = length (rb_data (wbuf s)) + 12 + length jsonstr + length bindata"
    using s' lenF by simp
  ultimately show ?thesis using r' by simp
qed

text \<open>The value \<^verbatim>\<open>{}\<close> with the blob \<^verbatim>\<open>AB\<close>, decoded from an inbuffer in which one more
  byte follows the frame; and the value \<^verbatim>\<open>[]\<close> with the empty blob.\<close>

theorem push_pop_roundtrip_witness:
  "example_dumps Empty_object = Some [0x7B, 0x7D]
   \<and> 0 \<notin> set [0x7B, 0x7D :: byte]
   \<and> example_loadb [0x7B, 0x7D] = Some Empty_object
   \<and> 12 + length [0x7B, 0x7D :: byte] + length [0x41, 0x42 :: byte] < (2::nat) ^ 32
   \<and> length (rb_data (wbuf (example_socket 1024 [] []))) + 12 + length [0x7B, 0x7D :: byte]
         + length [0x41, 0x42 :: byte] \<le> rb_cap (wbuf (example_socket 1024 [] []))
   \<and> dime_socket_push example_dumps (example_socket 1024 [] []) Empty_object [0x41, 0x42]
       = (16, example_socket 1024 [] frame_AB)
   \<and> malloc (example_platform (\<lambda>bs. 0) None) 16
   \<and> dime_socket_pop (example_platform (\<lambda>bs. 0) None) example_loadb
         (example_socket 1024 (frame_AB @ [0x44]) [])
       = (Pop_message 16 Empty_object [0x41, 0x42], example_socket 1024 [0x44] [])
   \<and> dime_socket_push example_dumps (example_socket 1024 [] []) Empty_array []
       = (14, example_socket 1024 [] [0x44, 0x69, 0x4D, 0x45, 0, 0, 0, 2, 0, 0, 0, 0, 0x5B, 0x5D])
   \<and> dime_socket_pop (example_platform (\<lambda>bs. 0) None) example_loadb
         (example_socket 1024 [0x44, 0x69, 0x4D, 0x45, 0, 0, 0, 2, 0, 0, 0, 0, 0x5B, 0x5D] [])
       = (Pop_message 14 Empty_array [], example_socket 1024 [] [])"
proof -
  have p1: "dime_socket_push example_dumps (example_socket 1024 [] []) Empty_object [0x41, 0x42]
       = (16, example_socket 1024 [] frame_AB)"
    by (simp add: dime_socket_push_def dime_socket_push_str_def example_socket_def frame_AB_def
        strlen_def dime_ringbuffer_write_def magic_def htonl_def Let_def ssize_t_of_def size_t_of_def)
  have p2: "dime_socket_push example_dumps (example_socket 1024 [] []) Empty_array []
       = (14, example_socket 1024 [] [0x44, 0x69, 0x4D, 0x45, 0, 0, 0, 2, 0, 0, 0, 0, 0x5B, 0x5D])"
    by (simp add: dime_socket_push_def dime_socket_push_str_def example_socket_def
        strlen_def dime_ringbuffer_write_def magic_def htonl_def Let_def ssize_t_of_def size_t_of_def)
  show ?thesis
    using push_pop_roundtrip [of example_dumps Empty_object "[0x7B, 0x7D]" example_loadb
        "[0x41, 0x42]" "example_socket 1024 [] []"
        "example_socket 1024 (frame_AB @ [0x44]) []" "[0x44]" "example_platform (\<lambda>bs. 0) None"]
      push_pop_roundtrip [of example_dumps Empty_array "[0x5B, 0x5D]" example_loadb
        "[]" "example_socket 1024 [] []"
        "example_socket 1024 [0x44, 0x69, 0x4D, 0x45, 0, 0, 0, 2, 0, 0, 0, 0, 0x5B, 0x5D] []" "[]"
        "example_platform (\<lambda>bs. 0) None"]
      p1 p2
    by (simp add: example_loadb_def example_socket_def example_platform_def frame_AB_def)
qed

text \<open>
  The claim as stated fails for a blob of \<open>2^32\<close> bytes: \<^verbatim>\<open>htonl(bindata_len)\<close> keeps the low
  32 bits of the length, so the header announces an empty blob, and decoding the
  \<open>2^32 + 14\<close> bytes that were enqueued returns the count 14 and an empty blob. It also
  fails for a zero-length structured segment, which \<^verbatim>\<open>dime_socket_push_str\<close> produces
  from the empty text: a parser that refuses the empty text, as a JSON parser does, makes
  \<^verbatim>\<open>dime_socket_pop\<close> return \<open>-1\<close> on the frame.
\<close>

theorem push_pop_roundtrip_counterexample:
  "fst (dime_socket_push example_dumps (example_socket 8589934592 [] []) Empty_object
          (replicate 4294967296 0)) = 4294967310
   \<and> fst (dime_socket_pop (example_platform (\<lambda>bs. 0) None) example_loadb
         (example_socket 8589934592
            (rb_data (wbuf (snd (dime_socket_push example_dumps (example_socket 8589934592 [] [])
                                   Empty_object (replicate 4294967296 0))))) []))
       = Pop_message 14 Empty_object []
   \<and> dime_socket_push_str (example_socket 1024 [] []) [] [0x41, 0x42]
       = (14, example_socket 1024 [] [0x44, 0x69, 0x4D, 0x45, 0, 0, 0, 0, 0, 0, 0, 2, 0x41, 0x42])
   \<and> dime_socket_pop (example_platform (\<lambda>bs. 0) None) example_loadb
         (example_socket 1024 [0x44, 0x69, 0x4D, 0x45, 0, 0, 0, 0, 0, 0, 0, 2, 0x41, 0x42] [])
       = (Pop_fail,
          example_socket 1024 [0x44, 0x69, 0x4D, 0x45, 0, 0, 0, 0, 0, 0, 0, 2, 0x41, 0x42] [])"
proof -
  have big: "dime_socket_push example_dumps (example_socket 8589934592 [] []) Empty_object
          (replicate 4294967296 0)
      = (4294967310, example_socket 8589934592 []
           ([0x44, 0x69, 0x4D, 0x45, 0, 0, 0, 2, 0, 0, 0, 0, 0x7B, 0x7D] @ replicate 4294967296 0))"
    by (simp add: dime_socket_push_def dime_socket_push_str_def example_socket_def
        strlen_def dime_ringbuffer_write_def magic_def htonl_def Let_def ssize_t_of_def size_t_of_def)
  have pop_big: "fst (dime_socket_pop (example_platform (\<lambda>bs. 0) None) example_loadb
         (example_socket 8589934592
           ([0x44, 0x69, 0x4D, 0x45, 0, 0, 0, 2, 0, 0, 0, 0, 0x7B, 0x7D] @ replicate 4294967296 0) []))
       = Pop_message 14 Empty_object []"
    by (simp add: dime_socket_pop_def dime_ringbuffer_peek_def example_socket_def
        example_platform_def example_loadb_def magic_def Let_def)
  have empty: "dime_socket_push_str (example_socket 1024 [] []) [] [0x41, 0x42]
       = (14, example_socket 1024 [] [0x44, 0x69, 0x4D, 0x45, 0, 0, 0, 0, 0, 0, 0, 2, 0x41, 0x42])"
    by (simp add: dime_socket_push_str_def example_socket_def
        strlen_def dime_ringbuffer_write_def magic_def htonl_def Let_def ssize_t_of_def size_t_of_def)
  have pop_empty: "dime_socket_pop (example_platform (\<lambda>bs. 0) None) example_loadb
         (example_socket 1024 [0x44, 0x69, 0x4D, 0x45, 0, 0, 0, 0, 0, 0, 0, 2, 0x41, 0x42] [])
       = (Pop_fail,
          example_socket 1024 [0x44, 0x69, 0x4D, 0x45, 0, 0, 0, 0, 0, 0, 0, 2, 0x41, 0x42] [])"
    by (simp add: dime_socket_pop_def dime_ringbuffer_peek_def example_socket_def
        example_platform_def example_loadb_def magic_def Let_def)
  show ?thesis
    unfolding big using pop_big empty pop_empty by (simp add: example_socket_def)
qed

section \<open>Incomplete frames\<close>

text \<open>
  C7, as amended. Let a call of \<^verbatim>\<open>dime_socket_push_str\<close> that returned a value that is
  not negative have enqueued a message whose frame is shorter than \<open>2^32\<close> bytes, and let
  the inbuffer hold a strict prefix of the bytes that the call appended (the whole frame
  when it fit; the empty prefix included). Then \<^verbatim>\<open>dime_socket_pop\<close> leaves the socket as
  it was and returns \<open>0\<close>, except that it returns \<open>-1\<close> when the prefix holds the 12 header
  bytes and the allocation of the message buffer fails.
\<close>

theorem pop_strict_prefix_incomplete:
  assumes push: "dime_socket_push_str s jsonstr bindata = (r, s')" "0 \<le> r"
    and size: "12 + strlen jsonstr + length bindata < 2 ^ 32"
    and prefix: "strict_prefix (rb_data (rbuf sock))
                   (drop (length (rb_data (wbuf s))) (rb_data (wbuf s')))"
  shows "dime_socket_pop env json_loadb sock =
     (if 12 \<le> length (rb_data (rbuf sock)) \<and> \<not> malloc env (12 + strlen jsonstr + length bindata)
      then Pop_fail else Pop_incomplete, sock)"
proof -
  have js: "strlen jsonstr < 2 ^ 64" and bl: "length bindata < 2 ^ 64"
    using size by simp_all
  obtain A where A: "rb_data (wbuf s') = rb_data (wbuf s) @ A"
    and shape: "A = [] \<or>
       (take 12 A = magic @ htonl (of_nat (strlen jsonstr)) @ htonl (of_nat (length bindata))
        \<and> 12 \<le> length A \<and> length A \<le> 12 + strlen jsonstr + length bindata)"
    using push_str_appended [OF js bl, of s] push(1) by auto
  have pre: "strict_prefix (rb_data (rbuf sock)) A"
    using prefix A by simp
  then have "A \<noteq> []" by auto
  with shape
  have hdrA: "take 12 A = magic @ htonl (of_nat (strlen jsonstr)) @ htonl (of_nat (length bindata))"
    and lenA: "length A \<le> 12 + strlen jsonstr + length bindata"
    by simp_all
  show ?thesis using size pre hdrA lenA by (rule pop_frame_prefix)
qed

text \<open>The frame of \<^verbatim>\<open>{}\<close> and \<^verbatim>\<open>AB\<close> cut after 13 bytes and after 1 byte.\<close>

theorem pop_strict_prefix_incomplete_witness:
  "dime_socket_push_str (example_socket 1024 [] []) [0x7B, 0x7D] [0x41, 0x42]
     = (16, example_socket 1024 [] frame_AB)
   \<and> 12 + strlen [0x7B, 0x7D] + length [0x41, 0x42 :: byte] < (2::nat) ^ 32
   \<and> strict_prefix (take 13 frame_AB) frame_AB
   \<and> dime_socket_pop (example_platform (\<lambda>bs. 0) None) example_loadb
         (example_socket 1024 (take 13 frame_AB) [])
       = (Pop_incomplete, example_socket 1024 (take 13 frame_AB) [])
   \<and> strict_prefix (take 1 frame_AB) frame_AB
   \<and> dime_socket_pop (example_platform (\<lambda>bs. 0) None) example_loadb
         (example_socket 1024 (take 1 frame_AB) [])
       = (Pop_incomplete, example_socket 1024 (take 1 frame_AB) [])"
proof -
  have p1: "dime_socket_push_str (example_socket 1024 [] []) [0x7B, 0x7D] [0x41, 0x42]
       = (16, example_socket 1024 [] frame_AB)"
    by (simp add: dime_socket_push_str_def example_socket_def frame_AB_def
        strlen_def dime_ringbuffer_write_def magic_def htonl_def Let_def ssize_t_of_def size_t_of_def)
  show ?thesis
    using pop_strict_prefix_incomplete [of "example_socket 1024 [] []" "[0x7B, 0x7D]" "[0x41, 0x42]"
        16 "example_socket 1024 [] frame_AB" "example_socket 1024 (take 13 frame_AB) []"
        "example_platform (\<lambda>bs. 0) None" example_loadb]
      pop_strict_prefix_incomplete [of "example_socket 1024 [] []" "[0x7B, 0x7D]" "[0x41, 0x42]"
        16 "example_socket 1024 [] frame_AB" "example_socket 1024 (take 1 frame_AB) []"
        "example_platform (\<lambda>bs. 0) None" example_loadb]
      p1
    by (simp add: example_socket_def example_platform_def frame_AB_def strlen_def)
qed

text \<open>
  The claim as stated fails in two ways. With no memory left, \<^verbatim>\<open>dime_socket_pop\<close> on the
  first 12 bytes of the frame of \<^verbatim>\<open>{}\<close> and \<^verbatim>\<open>AB\<close> returns \<open>-1\<close>: the \<^verbatim>\<open>malloc\<close> of the
  message buffer comes before the test for a complete frame. And for the text \<^verbatim>\<open>{}\<close>
  with a blob of \<open>2^32 - 14\<close> bytes the frame has \<open>2^32\<close> bytes, the 32-bit sum
  \<^verbatim>\<open>12 + hdr.jsondata_len + hdr.bindata_len\<close> is 0, and on the first 12 bytes of the frame
  the peek of 0 bytes succeeds and \<^verbatim>\<open>json_loadb\<close> reads beyond the empty buffer.
\<close>

theorem pop_strict_prefix_incomplete_counterexample:
  "dime_socket_push_str (example_socket 1024 [] []) [0x7B, 0x7D] [0x41, 0x42]
     = (16, example_socket 1024 [] frame_AB)
   \<and> strict_prefix (take 12 frame_AB) frame_AB
   \<and> dime_socket_pop no_memory example_loadb (example_socket 1024 (take 12 frame_AB) [])
       = (Pop_fail, example_socket 1024 (take 12 frame_AB) [])
   \<and> fst (dime_socket_push_str (example_socket 8589934592 [] []) [0x7B, 0x7D]
            (replicate 4294967282 0)) = 4294967296
   \<and> take 12 (rb_data (wbuf (snd (dime_socket_push_str (example_socket 8589934592 [] [])
                                    [0x7B, 0x7D] (replicate 4294967282 0)))))
       = [0x44, 0x69, 0x4D, 0x45, 0, 0, 0, 2, 0xFF, 0xFF, 0xFF, 0xF2]
   \<and> fst (dime_socket_pop (example_platform (\<lambda>bs. 0) None) example_loadb
         (example_socket 1024 [0x44, 0x69, 0x4D, 0x45, 0, 0, 0, 2, 0xFF, 0xFF, 0xFF, 0xF2] []))
       = Pop_out_of_bounds"
proof -
  have p1: "dime_socket_push_str (example_socket 1024 [] []) [0x7B, 0x7D] [0x41, 0x42]
       = (16, example_socket 1024 [] frame_AB)"
    by (simp add: dime_socket_push_str_def example_socket_def frame_AB_def
        strlen_def dime_ringbuffer_write_def magic_def htonl_def Let_def ssize_t_of_def size_t_of_def)
  have p2: "dime_socket_pop no_memory example_loadb (example_socket 1024 (take 12 frame_AB) [])
       = (Pop_fail, example_socket 1024 (take 12 frame_AB) [])"
    by (simp add: dime_socket_pop_def dime_ringbuffer_peek_def example_socket_def
        no_memory_def frame_AB_def magic_def Let_def)
  have big: "dime_socket_push_str (example_socket 8589934592 [] []) [0x7B, 0x7D]
            (replicate 4294967282 0)
      = (4294967296, example_socket 8589934592 []
           ([0x44, 0x69, 0x4D, 0x45, 0, 0, 0, 2, 0xFF, 0xFF, 0xFF, 0xF2, 0x7B, 0x7D]
              @ replicate 4294967282 0))"
    by (simp add: dime_socket_push_str_def example_socket_def
        strlen_def dime_ringbuffer_write_def magic_def htonl_def Let_def ssize_t_of_def size_t_of_def)
  have p3: "fst (dime_socket_pop (example_platform (\<lambda>bs. 0) None) example_loadb
         (example_socket 1024 [0x44, 0x69, 0x4D, 0x45, 0, 0, 0, 2, 0xFF, 0xFF, 0xFF, 0xF2] []))
       = Pop_out_of_bounds"
    by (simp add: dime_socket_pop_def dime_ringbuffer_peek_def example_socket_def
        example_platform_def example_loadb_def magic_def Let_def)
  show ?thesis
    unfolding big using p1 p2 p3 by (simp add: example_socket_def frame_AB_def)
qed

section \<open>Partial-send conservation\<close>



section \<open>The upgrade to TLS with buffered input\<close>




section \<open>Failures of the upgrade to TLS\<close>

text \<open>
  C4. The claim is that every failure after the switch to blocking mode restores the
  descriptor's mode and leaves the socket without a session. On a non-blocking
  descriptor with empty buffers, when \<^verbatim>\<open>SSL_new\<close> returns \<^verbatim>\<open>NULL\<close> the call returns \<open>-1\<close>
  with \<^verbatim>\<open>O_NONBLOCK\<close> still cleared (flags 2 instead of 2050). When \<^verbatim>\<open>SSL_accept\<close> fails
  the flags are restored. When the last \<^verbatim>\<open>F_SETFL\<close> fails the call returns \<open>-1\<close> with the
  session attached.
\<close>

theorem init_tls_ssl_new_failure_not_restored:
  "dime_socket_init_tls (all_succeed\<lparr>ssl_new := None\<rparr>) nonblocking_descriptor
       (example_socket 1024 [] [])
     = Some (Returned (-1), \<lparr>fl = 2, calls = [SSL_new]\<rparr>, example_socket 1024 [] [])
   \<and> dime_socket_init_tls (all_succeed\<lparr>ssl_accept := 0\<rparr>) nonblocking_descriptor
       (example_socket 1024 [] [])
     = Some (Returned (-1),
             \<lparr>fl = 2050, calls = [SSL_new, SSL_set_mode, SSL_set_fd, SSL_accept, SSL_free]\<rparr>,
             example_socket 1024 [] [])
   \<and> dime_socket_init_tls (all_succeed\<lparr>restore_ok := False\<rparr>) nonblocking_descriptor
       (example_socket 1024 [] [])
     = Some (Returned (-1),
             \<lparr>fl = 2, calls = [SSL_new, SSL_set_mode, SSL_set_fd, SSL_accept]\<rparr>,
             (example_socket 1024 [] [])\<lparr>tls := Some 1\<rparr>)"
  by (simp add: dime_socket_init_tls_def fcntl_setfl_def tls_called_def Let_def all_succeed_def
      nonblocking_descriptor_def example_socket_def dime_ringbuffer_len_def O_NONBLOCK_def)

end
